theory Spec2Isabelle
  imports Main
begin

section \<open>Data model\<close>

text \<open>
  The two trainers of \<^verbatim>\<open>src/trainers\<close> are glue around external libraries.  The
  code of this repository is embedded as HOL functions; what the libraries own (the
  tokenizer, the metric implementations, the dataset container, the training run) is
  taken as a parameter.

  A Python exception is a value of \<open>py_error\<close>.  The error stream is the list of
  the strings written to it, oldest first, and is threaded through every function that
  may write: a function returns the stream together with either the exception it
  raised (\<open>Inl\<close>) or its value (\<open>Inr\<close>), so what was written before a raise is
  kept.
\<close>

datatype py_error =
    KeyError string
  | IndexError
  | TypeError
  | AttributeError

type_synonym stderr = "string list"

text \<open>
  A reference label as it stands in a dataset column: an \<^verbatim>\<open>int\<close>
  (\<^verbatim>\<open>isinstance(label, int)\<close> holds) or a label name.
\<close>

datatype label = LInt int | LName string

text \<open>\<^verbatim>\<open>self.Model.label2id\<close>: a dict from label names to integer ids.\<close>

type_synonym label2id = "string \<rightharpoonup> int"

text \<open>
  The tokenizer's output (\<^verbatim>\<open>BatchEncoding\<close>).  Each example is the list of its
  sub-word tokens; a token carries its vocabulary id and the index of the source word it
  came from (\<open>None\<close> for a special token), which is what
  \<^verbatim>\<open>word_ids(batch_index=i)\<close> lists.  The keys \<^verbatim>\<open>'label'\<close> and
  \<^verbatim>\<open>'labels'\<close> are absent until a preprocessor stores them.
\<close>

record token =
  input_id :: int
  word_idx :: "nat option"

record batch_encoding =
  encodings :: "token list list"
  label_key :: "int list option"
  labels_key :: "int list list option"

definition word_ids :: "batch_encoding \<Rightarrow> nat \<Rightarrow> py_error + nat option list" where
  "word_ids tokenized_inputs batch_index =
     (if batch_index < length (encodings tokenized_inputs)
      then Inr (map word_idx (encodings tokenized_inputs ! batch_index))
      else Inl IndexError)"

text \<open>
  A batch of examples is a dict of columns.  The columns are named by the trainer's
  configuration (\<^verbatim>\<open>self.textLabel\<close>, \<^verbatim>\<open>self.pairLabel\<close>,
  \<^verbatim>\<open>self.tokensLabel\<close>, \<^verbatim>\<open>self.tagsLabel\<close>) or by the literal
  \<^verbatim>\<open>'label'\<close>; a column that the batch does not have is \<open>None\<close>, and subscripting it
  raises \<open>KeyError\<close> with the configured name.
\<close>

record text_examples =
  textLabel_col :: "string list option"
  text_pairLabel_col :: "string list option"
  label_col :: "label list option"

record token_examples =
  tokensLabel_col :: "string list list option"
  token_pairLabel_col :: "string list list option"
  tagsLabel_col :: "label list list option"

record column_names =
  textLabel :: string
  tokensLabel :: string
  tagsLabel :: string

definition label_warning :: string where
  "label_warning =
     ''The labels must be ints. You can add mappings via id2label in the config'' @ [CHR 0x0A]"

section \<open>Text classification: \<^verbatim>\<open>HFTextClassificationTrainer.preprocess_function\<close>\<close>

text \<open>
  The loop over \<^verbatim>\<open>examples['label']\<close> (lines 54--62), with the list \<open>labels\<close>
  built so far and the error stream as loop state.  A name missing from the mapping
  writes the warning and then the subscript \<^verbatim>\<open>label2id[label]\<close> raises.
\<close>

fun text_label_loop ::
  "label2id \<Rightarrow> label list \<Rightarrow> int list \<Rightarrow> stderr \<Rightarrow> stderr \<times> (py_error + int list)" where
  "text_label_loop l2i [] labels err = (err, Inr labels)"
| "text_label_loop l2i (LInt n # rest) labels err =
     text_label_loop l2i rest (labels @ [n]) err"
| "text_label_loop l2i (LName s # rest) labels err =
     (let err' = (if l2i s = None then err @ [label_warning] else err)
      in case l2i s of
           None \<Rightarrow> (err', Inl (KeyError s))
         | Some v \<Rightarrow> text_label_loop l2i rest (labels @ [v]) err')"

definition text_preprocess_function ::
  "(string list \<Rightarrow> string list option \<Rightarrow> batch_encoding) \<Rightarrow> column_names \<Rightarrow> label2id \<Rightarrow>
     text_examples \<Rightarrow> stderr \<Rightarrow> stderr \<times> (py_error + batch_encoding)" where
  "text_preprocess_function tokenizer names l2i examples err =
     (let pairs = text_pairLabel_col examples
      in case textLabel_col examples of
           None \<Rightarrow> (err, Inl (KeyError (textLabel names)))
         | Some texts \<Rightarrow>
             (let tokenized_inputs = tokenizer texts pairs
              in case label_col examples of
                   None \<Rightarrow> (err, Inl (KeyError ''label''))
                 | Some ls \<Rightarrow>
                     (case text_label_loop l2i ls [] err of
                        (err', Inl e) \<Rightarrow> (err', Inl e)
                      | (err', Inr labels) \<Rightarrow>
                          (err', Inr (tokenized_inputs\<lparr>label_key := Some labels\<rparr>)))))"

section \<open>Token classification: \<^verbatim>\<open>HFTokenClassificationTrainer.preprocess_function\<close>\<close>

text \<open>
  The inner loop over \<^verbatim>\<open>word_ids\<close> (lines 70--85) for one example whose tag
  sequence is \<open>label\<close>.  Its state is \<open>previous_word_idx\<close>, the list
  \<open>label_ids\<close> built so far and the error stream; it returns the final
  \<open>previous_word_idx\<close> with the labels.  \<^verbatim>\<open>label[word_idx]\<close> raises
  \<open>IndexError\<close> past the end of the tag sequence (word indices are never negative).
\<close>

fun align_loop ::
  "label2id \<Rightarrow> label list \<Rightarrow> nat option list \<Rightarrow> nat option \<Rightarrow> int list \<Rightarrow> stderr \<Rightarrow>
     stderr \<times> (py_error + nat option \<times> int list)" where
  "align_loop l2i label [] previous_word_idx label_ids err =
     (err, Inr (previous_word_idx, label_ids))"
| "align_loop l2i label (None # rest) previous_word_idx label_ids err =
     align_loop l2i label rest None (label_ids @ [- 100]) err"
| "align_loop l2i label (Some w # rest) previous_word_idx label_ids err =
     (if Some w \<noteq> previous_word_idx then
        (if w < length label then
           (case label ! w of
              LInt n \<Rightarrow> align_loop l2i label rest (Some w) (label_ids @ [n]) err
            | LName s \<Rightarrow>
                (let err' = (if l2i s = None then err @ [label_warning] else err)
                 in case l2i s of
                      None \<Rightarrow> (err', Inl (KeyError s))
                    | Some v \<Rightarrow> align_loop l2i label rest (Some w) (label_ids @ [v]) err'))
         else (err, Inl IndexError))
      else align_loop l2i label rest (Some w) (label_ids @ [- 100]) err)"

text \<open>
  The outer loop over \<^verbatim>\<open>enumerate(examples[self.tagsLabel])\<close> (lines 66--86):
  \<open>i\<close> is the running index, \<open>labels\<close> the list built so far.
\<close>

fun tags_loop ::
  "label2id \<Rightarrow> batch_encoding \<Rightarrow> label list list \<Rightarrow> nat \<Rightarrow> int list list \<Rightarrow> stderr \<Rightarrow>
     stderr \<times> (py_error + int list list)" where
  "tags_loop l2i tokenized_inputs [] i labels err = (err, Inr labels)"
| "tags_loop l2i tokenized_inputs (label # rest) i labels err =
     (case word_ids tokenized_inputs i of
        Inl e \<Rightarrow> (err, Inl e)
      | Inr wids \<Rightarrow>
          (case align_loop l2i label wids None [] err of
             (err', Inl e) \<Rightarrow> (err', Inl e)
           | (err', Inr (previous_word_idx, label_ids)) \<Rightarrow>
               tags_loop l2i tokenized_inputs rest (Suc i) (labels @ [label_ids]) err'))"

definition token_preprocess_function ::
  "(string list list \<Rightarrow> string list list option \<Rightarrow> batch_encoding) \<Rightarrow> column_names \<Rightarrow>
     label2id \<Rightarrow> token_examples \<Rightarrow> stderr \<Rightarrow> stderr \<times> (py_error + batch_encoding)" where
  "token_preprocess_function tokenizer names l2i examples err =
     (let pairs = token_pairLabel_col examples
      in case tokensLabel_col examples of
           None \<Rightarrow> (err, Inl (KeyError (tokensLabel names)))
         | Some words \<Rightarrow>
             (let tokenized_inputs = tokenizer words pairs
              in case tagsLabel_col examples of
                   None \<Rightarrow> (err, Inl (KeyError (tagsLabel names)))
                 | Some tags \<Rightarrow>
                     (case tags_loop l2i tokenized_inputs tags 0 [] err of
                        (err', Inl e) \<Rightarrow> (err', Inl e)
                      | (err', Inr labels) \<Rightarrow>
                          (err', Inr (tokenized_inputs\<lparr>labels_key := Some labels\<rparr>)))))"

section \<open>Token classification: \<^verbatim>\<open>compute_metrics\<close>\<close>

text \<open>
  The four metrics of the \<^verbatim>\<open>evaluate\<close> library, each called with
  \<^verbatim>\<open>predictions=\<close> and \<^verbatim>\<open>references=\<close> (and with the fixed keyword arguments of
  lines 32--43) and returning a dict from metric names to scalars of type \<open>'r\<close>.
\<close>

record 'r metrics =
  accuracy :: "int list \<Rightarrow> int list \<Rightarrow> (string \<rightharpoonup> 'r)"
  precision :: "int list \<Rightarrow> int list \<Rightarrow> (string \<rightharpoonup> 'r)"
  recall :: "int list \<Rightarrow> int list \<Rightarrow> (string \<rightharpoonup> 'r)"
  f1 :: "int list \<Rightarrow> int list \<Rightarrow> (string \<rightharpoonup> 'r)"

text \<open>The inner loop of lines 26--29 over \<^verbatim>\<open>zip(prediction, label)\<close>.\<close>

fun sequence_loop :: "(int \<times> int) list \<Rightarrow> int list \<Rightarrow> int list \<Rightarrow> int list \<times> int list" where
  "sequence_loop [] true_predictions true_labels = (true_predictions, true_labels)"
| "sequence_loop ((p, l) # rest) true_predictions true_labels =
     (if l \<noteq> - 100
      then sequence_loop rest (true_predictions @ [p]) (true_labels @ [l])
      else sequence_loop rest true_predictions true_labels)"

text \<open>The outer loop of line 25 over \<^verbatim>\<open>zip(predictions, labels)\<close>.\<close>

fun batch_loop ::
  "(int list \<times> int list) list \<Rightarrow> int list \<Rightarrow> int list \<Rightarrow> int list \<times> int list" where
  "batch_loop [] true_predictions true_labels = (true_predictions, true_labels)"
| "batch_loop ((prediction, label) # rest) true_predictions true_labels =
     (case sequence_loop (zip prediction label) true_predictions true_labels of
        (true_predictions', true_labels') \<Rightarrow> batch_loop rest true_predictions' true_labels')"

text \<open>
  \<^verbatim>\<open>compute_metrics\<close> of the token trainer.  \<open>argmax\<close> stands for
  \<^verbatim>\<open>np.argmax(_, axis=-1)\<close>, from logits of any type to class ids per sequence
  and position; \<^verbatim>\<open>{**acc, **p, **r, **f}\<close> lets a later dict override an earlier one.
\<close>

definition compute_metrics ::
  "'r metrics \<Rightarrow> ('logits \<Rightarrow> int list list) \<Rightarrow> 'logits \<times> int list list \<Rightarrow> (string \<rightharpoonup> 'r)" where
  "compute_metrics lib argmax eval_pred =
     (case eval_pred of (logits, labels) \<Rightarrow>
        (let predictions = argmax logits
         in case batch_loop (zip predictions labels) [] [] of
              (predictions, labels) \<Rightarrow>
                accuracy lib predictions labels ++ precision lib predictions labels ++
                recall lib predictions labels ++ f1 lib predictions labels))"

text \<open>
  A row-wise arg-max over integer scores, the first index of the largest score, for
  running \<open>compute_metrics\<close> on concrete logits.
\<close>

fun first_argmax :: "int list \<Rightarrow> int" where
  "first_argmax [] = 0"
| "first_argmax (x # xs) =
     (if \<forall>y \<in> set xs. y \<le> x then 0 else 1 + first_argmax xs)"

section \<open>Training orchestration: \<^verbatim>\<open>train\<close> and \<^verbatim>\<open>preprocess_dataset\<close>\<close>

text \<open>
  The calls a trainer makes into the \<^verbatim>\<open>datasets\<close> and \<^verbatim>\<open>transformers\<close>
  libraries are recorded in order, with the arguments that matter here:
  \<^verbatim>\<open>dataset.map(self.preprocess_function, batched=True)\<close> on a dataset,
  \<^verbatim>\<open>dataset.shuffle(seed=n)\<close>, the run of \<^verbatim>\<open>transformers.Trainer(...).train()\<close>
  with its training split, evaluation split, collator, output directory, hyperparameters
  and \<^verbatim>\<open>use_cpu\<close>, and \<^verbatim>\<open>save_model()\<close>.
\<close>

datatype collator = DataCollatorWithPadding | DataCollatorForTokenClassification

datatype ('ds, 'sp, 'hp) lib_call =
    CallMap 'ds
  | CallShuffle 'ds nat
  | CallTrain 'sp 'sp "collator option" string 'hp bool
  | CallSaveModel

text \<open>
  The trainer object (\<^verbatim>\<open>self\<close>): the dataset (\<open>None\<close> until it is set), the data
  collator, the verbosity flag, the output path and the hyperparameters handed to
  \<^verbatim>\<open>TrainingArguments\<close> (learning rate, batch size, epochs, weight decay, evaluation
  and save cadence, load-best flag) as one value.  With it travel the two observable
  effects of a run: the error stream and the recorded library calls.
\<close>

record ('ds, 'sp, 'hp) trainer =
  dataset :: "'ds option"
  data_collator :: "collator option"
  verbose :: bool
  modelfpath :: string
  hyperparameters :: 'hp
  stderr_log :: stderr
  lib_calls :: "('ds, 'sp, 'hp) lib_call list"

text \<open>\<^verbatim>\<open>self.Model\<close>: the tokenizer, the label mapping and \<^verbatim>\<open>str(self.Model.device)\<close>.\<close>

record 'tok model =
  tokenizer :: 'tok
  label2id :: label2id
  device :: string

text \<open>
  What the trainers call and do not define.  \<open>set_dataset\<close> is the method of the base
  class \<^verbatim>\<open>Trainer\<close>, which is not among the source files; it is any function on the
  trainer object.  \<open>split\<close> is \<^verbatim>\<open>dataset[name]\<close> (\<open>None\<close> when the dataset has no
  such split), \<open>features\<close> the column names of a split, \<open>ds_map\<close> the batched
  \<^verbatim>\<open>dataset.map\<close> of a preprocessing function \<open>'f\<close>, which returns what the
  function wrote to the error stream and the new dataset or the exception that escaped,
  and \<open>ds_shuffle\<close> is \<^verbatim>\<open>dataset.shuffle(seed=n)\<close>.
\<close>

record ('ds, 'sp, 'hp, 'f) collaborators =
  set_dataset :: "('ds, 'sp, 'hp) trainer \<Rightarrow> ('ds, 'sp, 'hp) trainer"
  split :: "'ds \<Rightarrow> string \<Rightarrow> 'sp option"
  features :: "'sp \<Rightarrow> string list"
  ds_map :: "'f \<Rightarrow> 'ds \<Rightarrow> string list \<times> (py_error + 'ds)"
  ds_shuffle :: "'ds \<Rightarrow> nat \<Rightarrow> 'ds"

type_synonym text_preprocess =
  "text_examples \<Rightarrow> stderr \<Rightarrow> stderr \<times> (py_error + batch_encoding)"

type_synonym token_preprocess =
  "token_examples \<Rightarrow> stderr \<Rightarrow> stderr \<times> (py_error + batch_encoding)"

definition write_if_verbose ::
  "string \<Rightarrow> ('ds, 'sp, 'hp) trainer \<Rightarrow> ('ds, 'sp, 'hp) trainer" where
  "write_if_verbose msg s =
     (if verbose s then s\<lparr>stderr_log := stderr_log s @ [msg]\<rparr> else s)"

text \<open>
  The part of \<^verbatim>\<open>preprocess_dataset\<close> that both trainers share: the notice, the
  \<^verbatim>\<open>map\<close> call, and the collator (lines 91--96 of the token trainer, 71--76 of the
  text trainer).  Calling \<^verbatim>\<open>map\<close> on \<^verbatim>\<open>None\<close> raises \<open>AttributeError\<close>.
\<close>

definition tokenize_dataset ::
  "('ds, 'sp, 'hp, 'f) collaborators \<Rightarrow> 'f \<Rightarrow> collator \<Rightarrow> ('ds, 'sp, 'hp) trainer \<Rightarrow>
     ('ds, 'sp, 'hp) trainer \<times> py_error option" where
  "tokenize_dataset lib preprocess_function coll s =
     (let s1 = write_if_verbose (''Tokenizing the dataset...'' @ [CHR 0x0A]) s
      in case dataset s1 of
           None \<Rightarrow> (s1, Some AttributeError)
         | Some d \<Rightarrow>
             (case ds_map lib preprocess_function d of
                (written, Inl e) \<Rightarrow>
                  (s1\<lparr>stderr_log := stderr_log s1 @ written,
                      lib_calls := lib_calls s1 @ [CallMap d]\<rparr>, Some e)
              | (written, Inr d') \<Rightarrow>
                  (s1\<lparr>stderr_log := stderr_log s1 @ written,
                      lib_calls := lib_calls s1 @ [CallMap d],
                      dataset := Some d', data_collator := Some coll\<rparr>, None)))"

definition token_preprocess_dataset ::
  "('ds, 'sp, 'hp, token_preprocess) collaborators \<Rightarrow>
     (string list list \<Rightarrow> string list list option \<Rightarrow> batch_encoding) model \<Rightarrow> column_names \<Rightarrow>
     ('ds, 'sp, 'hp) trainer \<Rightarrow> ('ds, 'sp, 'hp) trainer \<times> py_error option" where
  "token_preprocess_dataset lib m names s =
     tokenize_dataset lib (token_preprocess_function (tokenizer m) names (label2id m))
       DataCollatorForTokenClassification s"

definition text_preprocess_dataset ::
  "('ds, 'sp, 'hp, text_preprocess) collaborators \<Rightarrow>
     (string list \<Rightarrow> string list option \<Rightarrow> batch_encoding) model \<Rightarrow> column_names \<Rightarrow>
     ('ds, 'sp, 'hp) trainer \<Rightarrow> ('ds, 'sp, 'hp) trainer \<times> py_error option" where
  "text_preprocess_dataset lib m names s =
     (let s0 = (if dataset s = None then set_dataset lib s else s)
      in tokenize_dataset lib (text_preprocess_function (tokenizer m) names (label2id m))
           DataCollatorWithPadding s0)"

text \<open>
  \<^verbatim>\<open>train\<close>, the same in both trainers but for the preprocessing it calls (lines
  98--142 of the token trainer, 77--121 of the text trainer).  \<open>preprocess_dataset\<close>
  is the trainer's own method.  Subscripting \<^verbatim>\<open>None\<close> raises \<open>TypeError\<close>, a
  missing split \<open>KeyError\<close>.
\<close>

definition train ::
  "('ds, 'sp, 'hp, 'f) collaborators \<Rightarrow> string \<Rightarrow>
     (('ds, 'sp, 'hp) trainer \<Rightarrow> ('ds, 'sp, 'hp) trainer \<times> py_error option) \<Rightarrow>
     ('ds, 'sp, 'hp) trainer \<Rightarrow> ('ds, 'sp, 'hp) trainer \<times> py_error option" where
  "train lib dev preprocess_dataset s =
     (let s1 = (if dataset s = None then set_dataset lib s else s)
      in case dataset s1 of
           None \<Rightarrow> (s1, Some TypeError)
         | Some d \<Rightarrow>
             (case split lib d ''train'' of
                None \<Rightarrow> (s1, Some (KeyError ''train''))
              | Some tr \<Rightarrow>
                  (case (if ''input_ids'' \<notin> set (features lib tr)
                         then preprocess_dataset s1 else (s1, None)) of
                     (s2, Some e) \<Rightarrow> (s2, Some e)
                   | (s2, None) \<Rightarrow>
                       (case dataset s2 of
                          None \<Rightarrow> (s2, Some AttributeError)
                        | Some d2 \<Rightarrow>
                            (let d3 = ds_shuffle lib d2 42;
                                 s3 = s2\<lparr>dataset := Some d3,
                                         lib_calls := lib_calls s2 @ [CallShuffle d2 42]\<rparr>;
                                 use_cpu = (dev = ''cpu'')
                             in case split lib d3 ''train'' of
                                  None \<Rightarrow> (s3, Some (KeyError ''train''))
                                | Some train_dataset \<Rightarrow>
                                    (case split lib d3 ''valid'' of
                                       None \<Rightarrow> (s3, Some (KeyError ''valid''))
                                     | Some eval_dataset \<Rightarrow>
                                         (let s4 = s3\<lparr>lib_calls := lib_calls s3 @
                                                    [CallTrain train_dataset eval_dataset
                                                       (data_collator s3) (modelfpath s3)
                                                       (hyperparameters s3) use_cpu]\<rparr>;
                                              s5 = write_if_verbose
                                                     (''Saving final model to '' @ modelfpath s4 @
                                                      ''...'' @ [CHR 0x0A]) s4
                                          in (s5\<lparr>lib_calls := lib_calls s5 @ [CallSaveModel]\<rparr>,
                                              None))))))))"

definition token_train ::
  "('ds, 'sp, 'hp, token_preprocess) collaborators \<Rightarrow>
     (string list list \<Rightarrow> string list list option \<Rightarrow> batch_encoding) model \<Rightarrow> column_names \<Rightarrow>
     ('ds, 'sp, 'hp) trainer \<Rightarrow> ('ds, 'sp, 'hp) trainer \<times> py_error option" where
  "token_train lib m names s = train lib (device m) (token_preprocess_dataset lib m names) s"

definition text_train ::
  "('ds, 'sp, 'hp, text_preprocess) collaborators \<Rightarrow>
     (string list \<Rightarrow> string list option \<Rightarrow> batch_encoding) model \<Rightarrow> column_names \<Rightarrow>
     ('ds, 'sp, 'hp) trainer \<Rightarrow> ('ds, 'sp, 'hp) trainer \<times> py_error option" where
  "text_train lib m names s = train lib (device m) (text_preprocess_dataset lib m names) s"

section \<open>Notions of the specification\<close>

text \<open>
  The resolved integer id of a reference label, in the specification's words: the label
  itself when it is an integer, otherwise what the label-name-to-id mapping gives for
  its name; \<open>None\<close> when the name is not in the mapping.
\<close>

fun resolved_id :: "label2id \<Rightarrow> label \<Rightarrow> int option" where
  "resolved_id l2i (LInt n) = Some n"
| "resolved_id l2i (LName s) = l2i s"

text \<open>
  The alignment rule for one token, given the word index of the token before it (\<open>pv\<close>,
  \<open>None\<close> at the start of an example) and its own: \<open>slot_ok\<close> holds when the rule
  raises nothing, \<open>slot_val\<close> is the label it assigns.  \<open>slots pv wids\<close> pairs every
  word index of \<open>wids\<close> with the one before it.
\<close>

fun slot_ok :: "label2id \<Rightarrow> label list \<Rightarrow> nat option \<times> nat option \<Rightarrow> bool" where
  "slot_ok l2i label (pv, None) = True"
| "slot_ok l2i label (pv, Some w) =
     (if Some w \<noteq> pv then w < length label \<and> resolved_id l2i (label ! w) \<noteq> None else True)"

fun slot_val :: "label2id \<Rightarrow> label list \<Rightarrow> nat option \<times> nat option \<Rightarrow> int" where
  "slot_val l2i label (pv, None) = - 100"
| "slot_val l2i label (pv, Some w) =
     (if Some w \<noteq> pv then the (resolved_id l2i (label ! w)) else - 100)"

definition slots :: "nat option \<Rightarrow> nat option list \<Rightarrow> (nat option \<times> nat option) list" where
  "slots pv wids = zip (butlast (pv # wids)) wids"

text \<open>The word indices of example \<open>i\<close> of a batch, and the labels the rule gives them.\<close>

definition example_words :: "batch_encoding \<Rightarrow> nat \<Rightarrow> nat option list" where
  "example_words enc i = map word_idx (encodings enc ! i)"

definition example_labels :: "label2id \<Rightarrow> batch_encoding \<Rightarrow> label list list \<Rightarrow> nat \<Rightarrow> nat \<Rightarrow> int list" where
  "example_labels l2i enc tags i j =
     map (slot_val l2i (tags ! j)) (slots None (example_words enc (i + j)))"

text \<open>
  The positions that the metric computation keeps, in the specification's words: the
  pairs of a sequence \<open>i\<close> and a position \<open>j\<close> at which both the predictions and the
  reference labels have an entry and the reference label is not \<open>-100\<close>, sequence by
  sequence and in order within a sequence.  \<open>kept\<close> filters the pairs of one
  sequence.
\<close>

definition kept_positions :: "int list list \<Rightarrow> int list list \<Rightarrow> (nat \<times> nat) list" where
  "kept_positions predictions labels =
     concat (map (\<lambda>i. map (Pair i)
                         (filter (\<lambda>j. labels ! i ! j \<noteq> - 100)
                            [0..<min (length (predictions ! i)) (length (labels ! i))]))
               [0..<min (length predictions) (length labels)])"

definition kept :: "(int \<times> int) list \<Rightarrow> (int \<times> int) list" where
  "kept zs = filter (\<lambda>(p, l). l \<noteq> - 100) zs"

section \<open>Concrete inputs\<close>

text \<open>
  A small tokenizer to run the preprocessing on: every character of a word is one
  sub-word token, each sequence is framed by special tokens, and the words of a paired
  sequence are numbered from zero again.
\<close>

definition special_token :: token where
  "special_token = \<lparr>input_id = 0, word_idx = None\<rparr>"

definition word_pieces :: "string list \<Rightarrow> token list" where
  "word_pieces ws =
     concat (map (\<lambda>(i, w). map (\<lambda>c. \<lparr>input_id = of_char c, word_idx = Some i\<rparr>) w)
               (enumerate 0 ws))"

definition char_tokenizer :: "string list list \<Rightarrow> string list list option \<Rightarrow> batch_encoding" where
  "char_tokenizer words pairs =
     \<lparr>encodings =
        (case pairs of
           None \<Rightarrow> map (\<lambda>ws. special_token # word_pieces ws @ [special_token]) words
         | Some seconds \<Rightarrow>
             map (\<lambda>(ws, ps). special_token # word_pieces ws @ [special_token] @
                                word_pieces ps @ [special_token])
               (zip words seconds)),
      label_key = None, labels_key = None\<rparr>"

definition demo_names :: column_names where
  "demo_names = \<lparr>textLabel = ''text'', tokensLabel = ''tokens'', tagsLabel = ''tags''\<rparr>"

definition demo_label2id :: label2id where
  "demo_label2id = [''B'' \<mapsto> 1, ''I'' \<mapsto> 2]"

definition demo_examples :: token_examples where
  "demo_examples =
     \<lparr>tokensLabel_col = Some [[''ab'', ''c'']], token_pairLabel_col = None,
      tagsLabel_col = Some [[LName ''B'', LInt 7]]\<rparr>"

definition demo_output :: batch_encoding where
  "demo_output =
     (char_tokenizer [[''ab'', ''c'']] None)\<lparr>labels_key := Some [[- 100, 1, - 100, 7, - 100]]\<rparr>"

definition pair_examples :: token_examples where
  "pair_examples =
     \<lparr>tokensLabel_col = Some [[''a'']], token_pairLabel_col = Some [[''d'']],
      tagsLabel_col = Some [[LName ''B'']]\<rparr>"

definition pair_output :: batch_encoding where
  "pair_output =
     (char_tokenizer [[''a'']] (Some [[''d'']]))\<lparr>labels_key := Some [[- 100, 1, - 100, 1, - 100]]\<rparr>"


text \<open>A text tokenizer: every text is one word of the tokenizer above.\<close>

definition demo_text_tokenizer :: "string list \<Rightarrow> string list option \<Rightarrow> batch_encoding" where
  "demo_text_tokenizer texts pairs =
     char_tokenizer (map (\<lambda>t. [t]) texts) (map_option (map (\<lambda>t. [t])) pairs)"






text \<open>
  Metrics to run \<open>compute_metrics\<close> on: each reports, under its name, how many
  predictions equal their reference and how many pairs it was given.
\<close>

definition matches :: "int list \<Rightarrow> int list \<Rightarrow> nat \<times> nat" where
  "matches predictions references =
     (length (filter (\<lambda>(p, r). p = r) (zip predictions references)), length references)"

definition counting_metrics :: "(nat \<times> nat) metrics" where
  "counting_metrics =
     \<lparr>accuracy = (\<lambda>ps rs. [''accuracy'' \<mapsto> matches ps rs]),
      precision = (\<lambda>ps rs. [''precision'' \<mapsto> matches ps rs]),
      recall = (\<lambda>ps rs. [''recall'' \<mapsto> matches ps rs]),
      f1 = (\<lambda>ps rs. [''f1'' \<mapsto> matches ps rs])\<rparr>"

text \<open>
  A dataset library to run \<open>train\<close> on.  A dataset lists its splits by name; a split
  has its column names and its rows, which are numbers here.  Mapping adds the
  tokenizer's columns to every split, shuffling rotates the rows of every split by the
  seed, and \<open>set_dataset\<close> loads the raw dataset.
\<close>

type_synonym toy_split = "string list \<times> nat list"

type_synonym toy_dataset = "(string \<times> toy_split) list"

definition toy_raw :: toy_dataset where
  "toy_raw =
     [(''train'', ([''tokens'', ''tags''], [10, 11, 12, 13, 14])),
      (''valid'', ([''tokens'', ''tags''], [20, 21, 22]))]"

definition toy_lib :: "(toy_dataset, toy_split, nat, 'f) collaborators" where
  "toy_lib =
     \<lparr>set_dataset = (\<lambda>s. s\<lparr>dataset := Some toy_raw\<rparr>),
      split = map_of,
      features = fst,
      ds_map = (\<lambda>f d. ([], Inr (map (\<lambda>(name, (cols, rows)).
                                         (name, (cols @ [''input_ids'', ''labels''], rows))) d))),
      ds_shuffle = (\<lambda>d n. map (\<lambda>(name, (cols, rows)). (name, (cols, rotate n rows))) d)\<rparr>"

definition toy_token_model ::
  "(string list list \<Rightarrow> string list list option \<Rightarrow> batch_encoding) model" where
  "toy_token_model = \<lparr>tokenizer = char_tokenizer, label2id = demo_label2id, device = ''cpu''\<rparr>"

definition toy_text_model ::
  "(string list \<Rightarrow> string list option \<Rightarrow> batch_encoding) model" where
  "toy_text_model =
     \<lparr>tokenizer = demo_text_tokenizer, label2id = demo_label2id, device = ''cuda:0''\<rparr>"

definition fresh_trainer :: "(toy_dataset, toy_split, nat) trainer" where
  "fresh_trainer =
     \<lparr>dataset = None, data_collator = None, verbose = True, modelfpath = ''out'',
      hyperparameters = 3, stderr_log = [], lib_calls = []\<rparr>"

definition toy_tokenized :: toy_dataset where
  "toy_tokenized =
     [(''train'', ([''tokens'', ''tags'', ''input_ids'', ''labels''], [12, 13, 14, 10, 11])),
      (''valid'', ([''tokens'', ''tags'', ''input_ids'', ''labels''], [20, 21, 22]))]"

definition toy_mapped :: toy_dataset where
  "toy_mapped =
     [(''train'', ([''tokens'', ''tags'', ''input_ids'', ''labels''], [10, 11, 12, 13, 14])),
      (''valid'', ([''tokens'', ''tags'', ''input_ids'', ''labels''], [20, 21, 22]))]"

definition after_token_run :: "(toy_dataset, toy_split, nat) trainer" where
  "after_token_run =
     \<lparr>dataset = Some toy_tokenized,
      data_collator = Some DataCollatorForTokenClassification,
      verbose = True, modelfpath = ''out'', hyperparameters = 3,
      stderr_log = [''Tokenizing the dataset...'' @ [CHR 0x0A],
                    ''Saving final model to out...'' @ [CHR 0x0A]],
      lib_calls =
        [CallMap toy_raw, CallShuffle toy_mapped 42,
         CallTrain ([''tokens'', ''tags'', ''input_ids'', ''labels''], [12, 13, 14, 10, 11])
           ([''tokens'', ''tags'', ''input_ids'', ''labels''], [20, 21, 22])
           (Some DataCollatorForTokenClassification) ''out'' 3 True,
         CallSaveModel]\<rparr>"

definition after_text_run :: "(toy_dataset, toy_split, nat) trainer" where
  "after_text_run =
     \<lparr>dataset = Some toy_tokenized,
      data_collator = Some DataCollatorWithPadding,
      verbose = True, modelfpath = ''out'', hyperparameters = 3,
      stderr_log = [''Tokenizing the dataset...'' @ [CHR 0x0A],
                    ''Saving final model to out...'' @ [CHR 0x0A]],
      lib_calls =
        [CallMap toy_raw, CallShuffle toy_mapped 42,
         CallTrain ([''tokens'', ''tags'', ''input_ids'', ''labels''], [12, 13, 14, 10, 11])
           ([''tokens'', ''tags'', ''input_ids'', ''labels''], [20, 21, 22])
           (Some DataCollatorWithPadding) ''out'' 3 False,
         CallSaveModel]\<rparr>"

definition loaded_trainer :: "(toy_dataset, toy_split, nat) trainer" where
  "loaded_trainer = fresh_trainer\<lparr>dataset := Some toy_raw\<rparr>"

definition other_trainer :: "(toy_dataset, toy_split, nat) trainer" where
  "other_trainer = loaded_trainer\<lparr>verbose := False, hyperparameters := 7, modelfpath := ''elsewhere''\<rparr>"

section \<open>The label alignment loop\<close>

lemma slots_Nil [simp]: "slots pv [] = []"
  by (simp add: slots_def)

lemma slots_Cons [simp]: "slots pv (x # xs) = (pv, x) # slots x xs"
  by (simp add: slots_def)

lemma length_slots [simp]: "length (slots pv wids) = length wids"
  by (induction wids arbitrary: pv) simp_all

lemma nth_slots: "k < length wids \<Longrightarrow> slots pv wids ! k = ((pv # wids) ! k, wids ! k)"
proof (induction wids arbitrary: pv k)
  case Nil
  then show ?case by simp
next
  case (Cons x xs)
  then show ?case by (cases k) simp_all
qed

text \<open>
  A prefix of tokens on which the rule raises nothing is consumed by the loop, which
  goes on with the last word index of the prefix as \<open>previous_word_idx\<close>.
\<close>

lemma align_loop_prefix:
  "list_all (slot_ok l2i label) (slots pv pre) \<Longrightarrow>
   align_loop l2i label (pre @ rest) pv acc err =
   align_loop l2i label rest (last (pv # pre)) (acc @ map (slot_val l2i label) (slots pv pre)) err"
proof (induction pre arbitrary: pv acc)
  case Nil
  then show ?case by simp
next
  case (Cons x xs)
  show ?case
  proof (cases x)
    case None
    with Cons show ?thesis by simp
  next
    case (Some w)
    with Cons show ?thesis
      by (cases "label ! w") (auto split: if_splits)
  qed
qed

lemma align_loop_Inr_ok:
  "align_loop l2i label wids pv acc err = (err', Inr r) \<Longrightarrow>
   list_all (slot_ok l2i label) (slots pv wids)"
proof (induction wids arbitrary: pv acc)
  case Nil
  then show ?case by simp
next
  case (Cons x xs)
  show ?case
  proof (cases x)
    case None
    with Cons show ?thesis by simp
  next
    case (Some w)
    with Cons show ?thesis
      by (cases "label ! w") (auto split: if_splits option.splits)
  qed
qed

lemma align_loop_Inr:
  assumes "align_loop l2i label wids pv acc err = (err', Inr (p, ls))"
  shows "err' = err" and "p = last (pv # wids)"
    and "ls = acc @ map (slot_val l2i label) (slots pv wids)"
    and "list_all (slot_ok l2i label) (slots pv wids)"
proof -
  show ok: "list_all (slot_ok l2i label) (slots pv wids)"
    using assms by (rule align_loop_Inr_ok)
  from align_loop_prefix [OF ok, of "[]" acc err] assms
  show "err' = err" and "p = last (pv # wids)"
    and "ls = acc @ map (slot_val l2i label) (slots pv wids)"
    by simp_all
qed

lemma slots_take: "slots pv (take n wids) = take n (slots pv wids)"
proof (induction wids arbitrary: pv n)
  case Nil
  then show ?case by simp
next
  case (Cons x xs)
  then show ?case by (cases n) simp_all
qed

lemma align_loop_after_token:
  assumes ok: "list_all (slot_ok l2i label) (slots pv wids)" and n: "n < length wids"
  shows "align_loop l2i label (take (Suc n) wids) pv acc err =
           (err, Inr (wids ! n, acc @ take (Suc n) (map (slot_val l2i label) (slots pv wids))))"
proof -
  have "set (take (Suc n) (slots pv wids)) \<subseteq> set (slots pv wids)"
    by (rule set_take_subset)
  with ok have ok': "list_all (slot_ok l2i label) (slots pv (take (Suc n) wids))"
    by (auto simp: slots_take list_all_iff)
  have l: "last (pv # take (Suc n) wids) = wids ! n"
    using n by (simp add: take_Suc_conv_app_nth)
  from align_loop_prefix [OF ok', of "[]" acc err] l show ?thesis
    by (simp add: slots_take take_map)
qed

section \<open>The batch loop and \<^verbatim>\<open>preprocess_function\<close> of the token trainer\<close>

lemma tags_loop_Inr:
  "tags_loop l2i enc tags i acc err = (err', Inr ls) \<Longrightarrow>
   err' = err \<and>
   ls = acc @ map (example_labels l2i enc tags i) [0..<length tags] \<and>
   (\<forall>j<length tags. i + j < length (encodings enc) \<and>
      list_all (slot_ok l2i (tags ! j)) (slots None (example_words enc (i + j))))"
proof (induction tags arbitrary: i acc)
  case Nil
  then show ?case by simp
next
  case (Cons label rest)
  from Cons.prems have inb: "i < length (encodings enc)"
    by (auto simp: word_ids_def split: if_splits)
  then have w: "word_ids enc i = Inr (example_words enc i)"
    by (simp add: word_ids_def example_words_def)
  from Cons.prems w obtain e1 p lab where
    al: "align_loop l2i label (example_words enc i) None [] err = (e1, Inr (p, lab))" and
    tl: "tags_loop l2i enc rest (Suc i) (acc @ [lab]) e1 = (err', Inr ls)"
    by (auto split: prod.splits sum.splits)
  note a = align_loop_Inr [OF al]
  from tl a(1) have tl': "tags_loop l2i enc rest (Suc i) (acc @ [lab]) err = (err', Inr ls)"
    by simp
  from Cons.IH [OF tl'] have
    ih1: "err' = err" and
    ih3: "ls = (acc @ [lab]) @ map (example_labels l2i enc rest (Suc i)) [0..<length rest]" and
    ih4: "\<forall>j<length rest. Suc i + j < length (encodings enc) \<and> list_all (slot_ok l2i (rest ! j)) (slots None (example_words enc (Suc i + j)))"
    by simp_all
  have shift: "map (example_labels l2i enc rest (Suc i)) [0..<length rest] =
               map (\<lambda>j. example_labels l2i enc (label # rest) i (Suc j)) [0..<length rest]"
    by (simp add: example_labels_def)
  have "ls = acc @ map (example_labels l2i enc (label # rest) i) [0..<length (label # rest)]"
    unfolding ih3 shift using a(3)
    by (simp add: map_upt_Suc example_labels_def del: upt_Suc)
  moreover have "\<forall>j<length (label # rest). i + j < length (encodings enc) \<and>
      list_all (slot_ok l2i ((label # rest) ! j)) (slots None (example_words enc (i + j)))"
  proof (intro allI impI)
    fix j assume "j < length (label # rest)"
    then show "i + j < length (encodings enc) \<and>
        list_all (slot_ok l2i ((label # rest) ! j)) (slots None (example_words enc (i + j)))"
      using a(4) ih4 inb by (cases j) auto
  qed
  ultimately show ?case using ih1 by simp
qed

lemma token_preprocess_function_Inr:
  assumes "token_preprocess_function tok names l2i ex err = (err', Inr out)"
  shows "\<exists>words tags. tokensLabel_col ex = Some words \<and> tagsLabel_col ex = Some tags \<and>
           err' = err \<and>
           encodings out = encodings (tok words (token_pairLabel_col ex)) \<and>
           labels_key out = Some (map (example_labels l2i out tags 0) [0..<length tags]) \<and>
           (\<forall>j<length tags. j < length (encodings out) \<and>
              list_all (slot_ok l2i (tags ! j)) (slots None (example_words out j)))"
proof -
  from assms obtain words tags e1 ls where
    w: "tokensLabel_col ex = Some words" and t: "tagsLabel_col ex = Some tags" and
    tl: "tags_loop l2i (tok words (token_pairLabel_col ex)) tags 0 [] err = (e1, Inr ls)" and
    out: "out = (tok words (token_pairLabel_col ex))\<lparr>labels_key := Some ls\<rparr>" and e: "err' = e1"
    by (auto simp: token_preprocess_function_def Let_def split: option.splits prod.splits sum.splits)
  have same: "example_labels l2i out tags 0 = example_labels l2i (tok words (token_pairLabel_col ex)) tags 0"
    "\<And>j. example_words out j = example_words (tok words (token_pairLabel_col ex)) j"
    by (simp_all add: out example_labels_def example_words_def fun_eq_iff)
  from tags_loop_Inr [OF tl] show ?thesis
    using w t e same by (simp add: out)
qed

lemma token_labels_at:
  assumes run: "token_preprocess_function tok names l2i ex err = (err', Inr out)"
    and tags: "tagsLabel_col ex = Some tags"
    and i: "i < length tags"
  shows "\<exists>ls. labels_key out = Some ls \<and> length ls = length tags \<and>
           i < length (encodings out) \<and> length (ls ! i) = length (encodings out ! i) \<and>
           (\<forall>k<length (encodings out ! i).
              slot_ok l2i (tags ! i) ((None # example_words out i) ! k, example_words out i ! k) \<and>
              ls ! i ! k = slot_val l2i (tags ! i) ((None # example_words out i) ! k, example_words out i ! k))"
proof -
  from token_preprocess_function_Inr [OF run] tags have
    l: "labels_key out = Some (map (example_labels l2i out tags 0) [0..<length tags])" and
    ok: "\<forall>j<length tags. j < length (encodings out) \<and>
              list_all (slot_ok l2i (tags ! j)) (slots None (example_words out j))"
    by auto
  let ?ls = "map (example_labels l2i out tags 0) [0..<length tags]"
  have len: "length (example_words out i) = length (encodings out ! i)"
    by (simp add: example_words_def)
  have li: "?ls ! i = map (slot_val l2i (tags ! i)) (slots None (example_words out i))"
    using i by (simp add: example_labels_def)
  have "\<forall>k<length (encodings out ! i).
          slot_ok l2i (tags ! i) ((None # example_words out i) ! k, example_words out i ! k) \<and>
          ?ls ! i ! k = slot_val l2i (tags ! i) ((None # example_words out i) ! k, example_words out i ! k)"
  proof (intro allI impI)
    fix k assume k: "k < length (encodings out ! i)"
    then have k': "k < length (example_words out i)" using len by simp
    from ok i have "list_all (slot_ok l2i (tags ! i)) (slots None (example_words out i))" by simp
    then have "slot_ok l2i (tags ! i) (slots None (example_words out i) ! k)"
      using k' by (simp add: list_all_length)
    then show "slot_ok l2i (tags ! i) ((None # example_words out i) ! k, example_words out i ! k) \<and>
          ?ls ! i ! k = slot_val l2i (tags ! i) ((None # example_words out i) ! k, example_words out i ! k)"
      using k' li by (simp add: nth_slots)
  qed
  with l ok i len li show ?thesis by simp
qed

text \<open>
  Conversely the preprocessing returns, with nothing written, whenever every example has
  its encoding and the alignment rule raises nothing on any token.
\<close>

lemma tags_loop_ok:
  "\<forall>j<length tags. i + j < length (encodings enc) \<and>
      list_all (slot_ok l2i (tags ! j)) (slots None (example_words enc (i + j))) \<Longrightarrow>
   tags_loop l2i enc tags i acc err =
     (err, Inr (acc @ map (example_labels l2i enc tags i) [0..<length tags]))"
proof (induction tags arbitrary: i acc)
  case Nil
  then show ?case by simp
next
  case (Cons label rest)
  from Cons.prems have inb: "i < length (encodings enc)"
    and ok: "list_all (slot_ok l2i label) (slots None (example_words enc i))"
    by force+
  have w: "word_ids enc i = Inr (example_words enc i)"
    using inb by (simp add: word_ids_def example_words_def)
  from align_loop_prefix [OF ok, of "[]" "[]" err]
  have al: "align_loop l2i label (example_words enc i) None [] err =
              (err, Inr (last (None # example_words enc i),
                         map (slot_val l2i label) (slots None (example_words enc i))))"
    by simp
  have rest: "\<forall>j<length rest. Suc i + j < length (encodings enc) \<and>
      list_all (slot_ok l2i (rest ! j)) (slots None (example_words enc (Suc i + j)))"
  proof (intro allI impI)
    fix j assume "j < length rest"
    then have "Suc j < length (label # rest)" by simp
    with Cons.prems have "i + Suc j < length (encodings enc) \<and>
      list_all (slot_ok l2i ((label # rest) ! Suc j)) (slots None (example_words enc (i + Suc j)))"
      by blast
    then show "Suc i + j < length (encodings enc) \<and>
      list_all (slot_ok l2i (rest ! j)) (slots None (example_words enc (Suc i + j)))"
      by simp
  qed
  have shift: "map (example_labels l2i enc rest (Suc i)) [0..<length rest] =
               map (\<lambda>j. example_labels l2i enc (label # rest) i (Suc j)) [0..<length rest]"
    by (simp add: example_labels_def)
  from Cons.IH [OF rest, of "acc @ [map (slot_val l2i label) (slots None (example_words enc i))]"]
  show ?case
    using w al unfolding shift
    by (simp add: map_upt_Suc example_labels_def del: upt_Suc)
qed

lemma token_preprocess_function_total:
  assumes "tokensLabel_col ex = Some words" and "tagsLabel_col ex = Some tags"
    and "\<forall>j<length tags. j < length (encodings (tok words (token_pairLabel_col ex))) \<and>
           list_all (slot_ok l2i (tags ! j))
             (slots None (example_words (tok words (token_pairLabel_col ex)) j))"
  shows "\<exists>out. token_preprocess_function tok names l2i ex err = (err, Inr out)"
proof -
  from assms(3) have "\<forall>j<length tags. 0 + j < length (encodings (tok words (token_pairLabel_col ex))) \<and>
           list_all (slot_ok l2i (tags ! j))
             (slots None (example_words (tok words (token_pairLabel_col ex)) (0 + j)))"
    by simp
  from tags_loop_ok [OF this, of "[]" err] assms(1,2) show ?thesis
    by (simp add: token_preprocess_function_def Let_def)
qed

subsection \<open>Runs on the concrete inputs\<close>

lemma demo_encoding:
  "char_tokenizer [[''ab'', ''c'']] None =
     \<lparr>encodings = [[\<lparr>input_id = 0, word_idx = None\<rparr>, \<lparr>input_id = 97, word_idx = Some 0\<rparr>,
                     \<lparr>input_id = 98, word_idx = Some 0\<rparr>, \<lparr>input_id = 99, word_idx = Some 1\<rparr>,
                     \<lparr>input_id = 0, word_idx = None\<rparr>]],
      label_key = None, labels_key = None\<rparr>"
  by (simp add: char_tokenizer_def word_pieces_def special_token_def)

lemma demo_run:
  "token_preprocess_function char_tokenizer demo_names demo_label2id demo_examples [] =
     ([], Inr ((char_tokenizer [[''ab'', ''c'']] None)\<lparr>labels_key := Some [[- 100, 1, - 100, 7, - 100]]\<rparr>))"
  by (simp add: token_preprocess_function_def demo_examples_def demo_encoding word_ids_def
      demo_label2id_def)

lemma pair_encoding:
  "char_tokenizer [[''a'']] (Some [[''d'']]) =
     \<lparr>encodings = [[\<lparr>input_id = 0, word_idx = None\<rparr>, \<lparr>input_id = 97, word_idx = Some 0\<rparr>,
                     \<lparr>input_id = 0, word_idx = None\<rparr>, \<lparr>input_id = 100, word_idx = Some 0\<rparr>,
                     \<lparr>input_id = 0, word_idx = None\<rparr>]],
      label_key = None, labels_key = None\<rparr>"
  by (simp add: char_tokenizer_def word_pieces_def special_token_def)

lemma pair_run:
  "token_preprocess_function char_tokenizer demo_names demo_label2id pair_examples [] =
     ([], Inr pair_output)"
  by (simp add: token_preprocess_function_def pair_examples_def pair_encoding word_ids_def
      demo_label2id_def pair_output_def)

section \<open>Claims on token-classification preprocessing\<close>



text \<open>
  C2.  When token-classification preprocessing returns, every token whose source word
  index equals that of the token immediately before it carries the ignore label
  \<open>-100\<close>; and a token that carries another label has a source word index that
  differs from that of the token before it (or is the first token of its example), so
  only first pieces carry a real label.
\<close>

theorem continuation_piece_ignored:
  assumes "token_preprocess_function tok names l2i ex err = (err', Inr out)"
    and "tagsLabel_col ex = Some tags"
    and "i < length tags" and "0 < k" and "k < length (encodings out ! i)"
    and "word_idx (encodings out ! i ! k) = word_idx (encodings out ! i ! (k - 1))"
  shows "\<exists>ls. labels_key out = Some ls \<and> ls ! i ! k = - 100 \<and>
           (\<forall>n<length (encodings out ! i). ls ! i ! n \<noteq> - 100 \<longrightarrow>
              (\<exists>w. word_idx (encodings out ! i ! n) = Some w \<and>
                   (n = 0 \<or> word_idx (encodings out ! i ! (n - 1)) \<noteq> Some w)))"
proof -
  from token_labels_at [OF assms(1-3)] obtain ls where
    l: "labels_key out = Some ls" and
    at: "\<forall>k<length (encodings out ! i).
              slot_ok l2i (tags ! i) ((None # example_words out i) ! k, example_words out i ! k) \<and>
              ls ! i ! k = slot_val l2i (tags ! i) ((None # example_words out i) ! k, example_words out i ! k)"
    by blast
  have prev: "(None # example_words out i) ! k = example_words out i ! k"
    using assms(4-6) by (cases k) (auto simp: example_words_def)
  from at assms(5) have "ls ! i ! k = slot_val l2i (tags ! i) (example_words out i ! k, example_words out i ! k)"
    using prev by simp
  then have here: "ls ! i ! k = - 100"
    by (cases "example_words out i ! k") simp_all
  have only: "\<forall>n<length (encodings out ! i). ls ! i ! n \<noteq> - 100 \<longrightarrow>
              (\<exists>w. word_idx (encodings out ! i ! n) = Some w \<and>
                   (n = 0 \<or> word_idx (encodings out ! i ! (n - 1)) \<noteq> Some w))"
  proof (intro allI impI)
    fix n assume n: "n < length (encodings out ! i)" and real: "ls ! i ! n \<noteq> - 100"
    from at n have v: "ls ! i ! n =
        slot_val l2i (tags ! i) ((None # example_words out i) ! n, example_words out i ! n)"
      by simp
    from real v obtain w where c: "example_words out i ! n = Some w"
      by (cases "example_words out i ! n") auto
    from real v c have p: "(None # example_words out i) ! n \<noteq> Some w"
      by (auto split: if_splits)
    from c n have "word_idx (encodings out ! i ! n) = Some w"
      by (simp add: example_words_def)
    moreover from p n have "n = 0 \<or> word_idx (encodings out ! i ! (n - 1)) \<noteq> Some w"
      by (cases n) (auto simp: example_words_def)
    ultimately show "\<exists>w. word_idx (encodings out ! i ! n) = Some w \<and>
                   (n = 0 \<or> word_idx (encodings out ! i ! (n - 1)) \<noteq> Some w)"
      by blast
  qed
  from l here only show ?thesis by blast
qed

theorem continuation_piece_ignored_witness:
  "token_preprocess_function char_tokenizer demo_names demo_label2id demo_examples [] =
     ([], Inr demo_output) \<and>
   word_idx (encodings demo_output ! 0 ! 1) = Some 0 \<and>
   word_idx (encodings demo_output ! 0 ! 2) = Some 0 \<and>
   (\<exists>ls. labels_key demo_output = Some ls \<and> ls ! 0 ! 2 = - 100)"
proof -
  have run: "token_preprocess_function char_tokenizer demo_names demo_label2id demo_examples [] =
     ([], Inr demo_output)"
    by (simp add: demo_run demo_output_def)
  have tags: "tagsLabel_col demo_examples = Some [[LName ''B'', LInt 7]]"
    by (simp add: demo_examples_def)
  from continuation_piece_ignored [OF run tags, of 0 2]
  show ?thesis using run by (simp add: demo_output_def demo_encoding)
qed

text \<open>
  C3.  When token-classification preprocessing returns, every token that has no source
  word index (a special token) carries the ignore label \<open>-100\<close>.
\<close>

theorem special_token_ignored:
  assumes "token_preprocess_function tok names l2i ex err = (err', Inr out)"
    and "tagsLabel_col ex = Some tags"
    and "i < length tags" and "k < length (encodings out ! i)"
    and "word_idx (encodings out ! i ! k) = None"
  shows "\<exists>ls. labels_key out = Some ls \<and> ls ! i ! k = - 100"
proof -
  from token_labels_at [OF assms(1-3)] obtain ls where
    l: "labels_key out = Some ls" and
    at: "\<forall>k<length (encodings out ! i).
              slot_ok l2i (tags ! i) ((None # example_words out i) ! k, example_words out i ! k) \<and>
              ls ! i ! k = slot_val l2i (tags ! i) ((None # example_words out i) ! k, example_words out i ! k)"
    by blast
  have cur: "example_words out i ! k = None"
    using assms(4,5) by (simp add: example_words_def)
  from at assms(4) cur have "ls ! i ! k = - 100" by simp
  with l show ?thesis by simp
qed

theorem special_token_ignored_witness:
  "token_preprocess_function char_tokenizer demo_names demo_label2id demo_examples [] =
     ([], Inr demo_output) \<and>
   word_idx (encodings demo_output ! 0 ! 4) = None \<and>
   (\<exists>ls. labels_key demo_output = Some ls \<and> ls ! 0 ! 4 = - 100)"
proof -
  have run: "token_preprocess_function char_tokenizer demo_names demo_label2id demo_examples [] =
     ([], Inr demo_output)"
    by (simp add: demo_run demo_output_def)
  have tags: "tagsLabel_col demo_examples = Some [[LName ''B'', LInt 7]]"
    by (simp add: demo_examples_def)
  from special_token_ignored [OF run tags, of 0 4]
  show ?thesis using run by (simp add: demo_output_def demo_encoding)
qed

text \<open>
  C7.  When token-classification preprocessing returns, the batch keeps the tokenizer's
  tokens and, for every example, the aligned label sequence has exactly one entry per
  sub-word token of that example.  In the run below a two-word example with five tokens
  gets five labels.
\<close>

theorem one_label_per_token:
  assumes "token_preprocess_function tok names l2i ex err = (err', Inr out)"
    and "tokensLabel_col ex = Some words"
    and "tagsLabel_col ex = Some tags"
  shows "encodings out = encodings (tok words (token_pairLabel_col ex)) \<and>
         (\<exists>ls. labels_key out = Some ls \<and> length ls = length tags \<and>
            (\<forall>i<length tags. i < length (encodings out) \<and>
               length (ls ! i) = length (encodings out ! i)))"
proof -
  from token_preprocess_function_Inr [OF assms(1)] assms(2)
  have enc: "encodings out = encodings (tok words (token_pairLabel_col ex))" by auto
  from token_preprocess_function_Inr [OF assms(1)] assms(3)
  obtain ls where l: "labels_key out = Some ls" and n: "length ls = length tags" by auto
  have "\<forall>i<length tags. i < length (encodings out) \<and> length (ls ! i) = length (encodings out ! i)"
  proof (intro allI impI)
    fix i assume "i < length tags"
    from token_labels_at [OF assms(1) assms(3) this] l
    show "i < length (encodings out) \<and> length (ls ! i) = length (encodings out ! i)" by auto
  qed
  with enc l n show ?thesis by blast
qed

theorem one_label_per_token_witness:
  "token_preprocess_function char_tokenizer demo_names demo_label2id demo_examples [] =
     ([], Inr demo_output) \<and>
   length [LName ''B'', LInt 7] = 2 \<and>
   length (encodings (char_tokenizer [[''ab'', ''c'']] None) ! 0) = 5 \<and>
   (\<exists>ls. labels_key demo_output = Some ls \<and> length ls = 1 \<and> length (ls ! 0) = 5)"
proof -
  have run: "token_preprocess_function char_tokenizer demo_names demo_label2id demo_examples [] =
     ([], Inr demo_output)"
    by (simp add: demo_run demo_output_def)
  have words: "tokensLabel_col demo_examples = Some [[''ab'', ''c'']]"
    and tags: "tagsLabel_col demo_examples = Some [[LName ''B'', LInt 7]]"
    by (simp_all add: demo_examples_def)
  from one_label_per_token [OF run words tags]
  show ?thesis using run by (simp add: demo_output_def demo_encoding demo_examples_def)
qed

text \<open>
  C10.  After every token the loop's \<open>previous_word_idx\<close> is that token's word index,
  \<open>None\<close> for a special token.  So a token with a word index that immediately follows
  a special token takes the first-piece branch and carries the word's resolved label,
  the same label as any earlier first piece of that word index: in the run below, on a
  paired input, word 0 is labelled at positions 1 and 3.
\<close>

theorem label_assigned_again_after_special_token:
  assumes "token_preprocess_function tok names l2i ex err = (err', Inr out)"
    and "tagsLabel_col ex = Some tags"
    and "i < length tags" and "0 < k" and "k < length (encodings out ! i)"
    and "word_idx (encodings out ! i ! (k - 1)) = None"
    and "word_idx (encodings out ! i ! k) = Some w"
  shows "(\<forall>n<length (encodings out ! i). \<exists>label_ids.
            align_loop l2i (tags ! i) (take (Suc n) (map word_idx (encodings out ! i))) None [] err =
              (err, Inr (word_idx (encodings out ! i ! n), label_ids))) \<and>
         (\<exists>ls. labels_key out = Some ls \<and> w < length (tags ! i) \<and>
            resolved_id l2i (tags ! i ! w) = Some (ls ! i ! k) \<and>
            (\<forall>j<k. word_idx (encodings out ! i ! j) = Some w \<and>
                     (j = 0 \<or> word_idx (encodings out ! i ! (j - 1)) \<noteq> Some w) \<longrightarrow>
                   ls ! i ! j = ls ! i ! k))"
proof -
  from token_preprocess_function_Inr [OF assms(1)] assms(2,3)
  have ok: "list_all (slot_ok l2i (tags ! i)) (slots None (example_words out i))"
    by auto
  have track: "\<forall>n<length (encodings out ! i). \<exists>label_ids.
            align_loop l2i (tags ! i) (take (Suc n) (map word_idx (encodings out ! i))) None [] err =
              (err, Inr (word_idx (encodings out ! i ! n), label_ids))"
  proof (intro allI impI)
    fix n assume n: "n < length (encodings out ! i)"
    then have "n < length (example_words out i)" by (simp add: example_words_def)
    from align_loop_after_token [OF ok this, of "[]" err] n
    show "\<exists>label_ids.
            align_loop l2i (tags ! i) (take (Suc n) (map word_idx (encodings out ! i))) None [] err =
              (err, Inr (word_idx (encodings out ! i ! n), label_ids))"
      by (simp add: example_words_def)
  qed
  from token_labels_at [OF assms(1-3)] obtain ls where
    l: "labels_key out = Some ls" and
    at: "\<forall>k<length (encodings out ! i).
              slot_ok l2i (tags ! i) ((None # example_words out i) ! k, example_words out i ! k) \<and>
              ls ! i ! k = slot_val l2i (tags ! i) ((None # example_words out i) ! k, example_words out i ! k)"
    by blast
  have first: "ls ! i ! j = the (resolved_id l2i (tags ! i ! w)) \<and> w < length (tags ! i) \<and>
               resolved_id l2i (tags ! i ! w) \<noteq> None"
    if j: "j < length (encodings out ! i)" and cur: "word_idx (encodings out ! i ! j) = Some w"
      and prev: "j = 0 \<or> word_idx (encodings out ! i ! (j - 1)) \<noteq> Some w" for j
  proof -
    have c: "example_words out i ! j = Some w"
      using j cur by (simp add: example_words_def)
    have p: "(None # example_words out i) ! j \<noteq> Some w"
      using j prev by (cases j) (auto simp: example_words_def)
    from at j c p show ?thesis by (auto split: if_splits)
  qed
  have atk: "ls ! i ! k = the (resolved_id l2i (tags ! i ! w)) \<and> w < length (tags ! i) \<and>
               resolved_id l2i (tags ! i ! w) \<noteq> None"
    using first [of k] assms(4-7) by simp
  have "\<forall>j<k. word_idx (encodings out ! i ! j) = Some w \<and>
                     (j = 0 \<or> word_idx (encodings out ! i ! (j - 1)) \<noteq> Some w) \<longrightarrow>
                   ls ! i ! j = ls ! i ! k"
  proof (intro allI impI)
    fix j assume "j < k"
      and "word_idx (encodings out ! i ! j) = Some w \<and>
                     (j = 0 \<or> word_idx (encodings out ! i ! (j - 1)) \<noteq> Some w)"
    then show "ls ! i ! j = ls ! i ! k"
      using first [of j] atk assms(5) by simp
  qed
  with track l atk show ?thesis by auto
qed

theorem label_assigned_again_after_special_token_witness:
  "token_preprocess_function char_tokenizer demo_names demo_label2id pair_examples [] =
     ([], Inr pair_output) \<and>
   map word_idx (encodings pair_output ! 0) = [None, Some 0, None, Some 0, None] \<and>
   (\<exists>ls. labels_key pair_output = Some ls \<and> ls ! 0 ! 1 = 1 \<and> ls ! 0 ! 3 = 1 \<and>
      resolved_id demo_label2id (LName ''B'') = Some (ls ! 0 ! 3))"
proof -
  have tags: "tagsLabel_col pair_examples = Some [[LName ''B'']]"
    by (simp add: pair_examples_def)
  from label_assigned_again_after_special_token [OF pair_run tags, of 0 3 0]
  show ?thesis using pair_run by (simp add: pair_output_def pair_encoding demo_label2id_def)
qed

section \<open>\<^verbatim>\<open>preprocess_function\<close> of the text trainer\<close>

text \<open>
  The label loop returns exactly when every label resolves, and then with the resolved
  ids in order and nothing written; otherwise it stops at the first name that the
  mapping lacks, after one warning.
\<close>

lemma text_label_loop_ok:
  "list_all (\<lambda>l. resolved_id l2i l \<noteq> None) ls \<Longrightarrow>
   text_label_loop l2i ls acc err = (err, Inr (acc @ map (\<lambda>l. the (resolved_id l2i l)) ls))"
proof (induction ls arbitrary: acc)
  case Nil
  then show ?case by simp
next
  case (Cons l ls)
  then show ?case by (cases l) auto
qed



lemma text_preprocess_function_total:
  assumes "textLabel_col ex = Some texts" and "label_col ex = Some ls"
    and "\<forall>s. LName s \<in> set ls \<longrightarrow> l2i s \<noteq> None"
  shows "\<exists>out. text_preprocess_function tok names l2i ex err = (err, Inr out)"
proof -
  have "list_all (\<lambda>l. resolved_id l2i l \<noteq> None) ls"
    unfolding list_all_iff
  proof
    fix l assume "l \<in> set ls"
    with assms(3) show "resolved_id l2i l \<noteq> None" by (cases l) auto
  qed
  from text_label_loop_ok [OF this, of "[]" err] assms(1,2) show ?thesis
    by (simp add: text_preprocess_function_def)
qed





section \<open>Labels that the mapping lacks\<close>








section \<open>\<^verbatim>\<open>compute_metrics\<close> of the token trainer\<close>

lemma sequence_loop_eq:
  "sequence_loop zs tp tls = (tp @ map fst (kept zs), tls @ map snd (kept zs))"
  by (induction zs tp tls rule: sequence_loop.induct) (simp_all add: kept_def)

lemma batch_loop_eq:
  "batch_loop bs tp tls =
     (tp @ concat (map (\<lambda>(pr, lb). map fst (kept (zip pr lb))) bs),
      tls @ concat (map (\<lambda>(pr, lb). map snd (kept (zip pr lb))) bs))"
  by (induction bs tp tls rule: batch_loop.induct) (simp_all add: sequence_loop_eq)

lemma zip_as_positions:
  "zip xs ys = map (\<lambda>j. (xs ! j, ys ! j)) [0..<min (length xs) (length ys)]"
  by (rule nth_equalityI) simp_all

lemma kept_zip:
  "kept (zip pr lb) =
     map (\<lambda>j. (pr ! j, lb ! j))
       (filter (\<lambda>j. lb ! j \<noteq> - 100) [0..<min (length pr) (length lb)])"
proof -
  have "kept (zip pr lb) =
          filter (\<lambda>(p, l). l \<noteq> - 100)
            (map (\<lambda>j. (pr ! j, lb ! j)) [0..<min (length pr) (length lb)])"
    unfolding kept_def by (subst zip_as_positions) (rule refl)
  then show ?thesis by (simp add: filter_map comp_def)
qed

lemma batch_loop_positions:
  "batch_loop (zip predictions labels) [] [] =
     (map (\<lambda>(i, j). predictions ! i ! j) (kept_positions predictions labels),
      map (\<lambda>(i, j). labels ! i ! j) (kept_positions predictions labels))"
proof -
  let ?n = "min (length predictions) (length labels)"
  have z: "zip predictions labels = map (\<lambda>i. (predictions ! i, labels ! i)) [0..<?n]"
    by (rule zip_as_positions)
  show ?thesis
    unfolding batch_loop_eq
    by (subst (1 2) z)
       (simp add: kept_positions_def map_concat comp_def kept_zip)
qed

lemma set_kept_positions:
  "set (kept_positions predictions labels) =
     {(i, j). i < length predictions \<and> i < length labels \<and>
              j < length (predictions ! i) \<and> j < length (labels ! i) \<and>
              labels ! i ! j \<noteq> - 100}"
  by (auto simp: kept_positions_def)

text \<open>
  C4.  The token-classification metric computation flattens predictions and reference
  labels into two parallel lists, read off at the same positions: exactly the positions
  whose reference label is not \<open>-100\<close>, in order; the four metrics are computed over
  these two lists, and no kept reference label is \<open>-100\<close>.  Below, for one sequence
  with predictions \<open>[1, 2, 3]\<close> and references \<open>[1, -100, 3]\<close>, the kept positions are
  0 and 2 and the metrics are computed over \<open>[1, 3]\<close> and \<open>[1, 3]\<close>.
\<close>

theorem metrics_over_kept_positions:
  "compute_metrics lib argmax (logits, labels) =
     (let positions = kept_positions (argmax logits) labels;
          true_predictions = map (\<lambda>(i, j). argmax logits ! i ! j) positions;
          true_labels = map (\<lambda>(i, j). labels ! i ! j) positions
      in accuracy lib true_predictions true_labels ++ precision lib true_predictions true_labels ++
         recall lib true_predictions true_labels ++ f1 lib true_predictions true_labels) \<and>
   set (kept_positions (argmax logits) labels) =
     {(i, j). i < length (argmax logits) \<and> i < length labels \<and>
              j < length (argmax logits ! i) \<and> j < length (labels ! i) \<and>
              labels ! i ! j \<noteq> - 100} \<and>
   - 100 \<notin> set (map (\<lambda>(i, j). labels ! i ! j) (kept_positions (argmax logits) labels))"
  by (auto simp: compute_metrics_def batch_loop_positions set_kept_positions Let_def)

theorem metrics_over_kept_positions_witness:
  "map (map first_argmax) [[[0, 5, 1, 0], [0, 0, 9, 1], [0, 1, 2, 3]]] = [[1, 2, 3]] \<and>
   kept_positions [[1, 2, 3]] [[1, - 100, 3]] = [(0, 0), (0, 2)] \<and>
   compute_metrics counting_metrics (map (map first_argmax))
       ([[[0, 5, 1, 0], [0, 0, 9, 1], [0, 1, 2, 3]]], [[1, - 100, 3]]) =
     accuracy counting_metrics [1, 3] [1, 3] ++ precision counting_metrics [1, 3] [1, 3] ++
     recall counting_metrics [1, 3] [1, 3] ++ f1 counting_metrics [1, 3] [1, 3] \<and>
   accuracy counting_metrics [1, 3] [1, 3] = [''accuracy'' \<mapsto> (2, 2)]"
proof -
  have a: "map (map first_argmax) [[[0, 5, 1, 0], [0, 0, 9, 1], [0, 1, 2, 3]]] = [[1, 2, 3]]"
    by simp
  have k: "kept_positions [[1, 2, 3]] [[1, - 100, 3]] = [(0, 0), (0, 2)]"
    by (simp add: kept_positions_def)
  have m: "accuracy counting_metrics [1, 3] [1, 3] = [''accuracy'' \<mapsto> (2, 2)]"
    by (simp add: counting_metrics_def matches_def numeral_2_eq_2)
  from metrics_over_kept_positions
         [of counting_metrics "map (map first_argmax)"
             "[[[0, 5, 1, 0], [0, 0, 9, 1], [0, 1, 2, 3]]]" "[[1, - 100, 3]]", THEN conjunct1]
  show ?thesis unfolding a k by (simp add: a k m Let_def)
qed

section \<open>Training orchestration\<close>

lemma tokenize_dataset_calls:
  assumes "tokenize_dataset lib f c s = (s', e)"
  shows "\<exists>new. lib_calls s' = lib_calls s @ new \<and> (\<forall>d n. CallShuffle d n \<notin> set new)"
  using assms
  by (auto simp: tokenize_dataset_def write_if_verbose_def Let_def
           split: option.splits prod.splits sum.splits if_splits)

lemma tokenize_dataset_result:
  assumes "dataset s = Some d"
  shows "dataset (fst (tokenize_dataset lib f c s)) =
           (case snd (ds_map lib f d) of Inl e \<Rightarrow> Some d | Inr d' \<Rightarrow> Some d') \<and>
         snd (tokenize_dataset lib f c s) =
           (case snd (ds_map lib f d) of Inl e \<Rightarrow> Some e | Inr d' \<Rightarrow> None)"
  using assms
  by (auto simp: tokenize_dataset_def write_if_verbose_def Let_def
           split: option.splits prod.splits sum.splits if_splits)

lemma train_skips:
  assumes "dataset s = Some d" and "split lib d ''train'' = Some tr"
    and "''input_ids'' \<in> set (features lib tr)"
  shows "train lib dev pp s = train lib dev (\<lambda>s. (s, None)) s"
    and "dataset (fst (train lib dev pp s)) = Some (ds_shuffle lib d 42)"
    and "data_collator (fst (train lib dev pp s)) = data_collator s"
    and "\<exists>rest. lib_calls (fst (train lib dev pp s)) = lib_calls s @ CallShuffle d 42 # rest \<and>
           (\<forall>d'. CallMap d' \<notin> set rest)"
  using assms
  by (auto simp: train_def write_if_verbose_def Let_def split: option.splits)

lemma train_same_dataset:
  assumes "dataset s = Some d" and "dataset s' = Some d"
    and "dataset (fst (pp s)) = dataset (fst (pp s'))" and "snd (pp s) = snd (pp s')"
  shows "dataset (fst (train lib dev pp s)) = dataset (fst (train lib dev pp s')) \<and>
         snd (train lib dev pp s) = snd (train lib dev pp s')"
proof -
  obtain s2 e where p: "pp s = (s2, e)" by (cases "pp s")
  obtain s2' e' where p': "pp s' = (s2', e')" by (cases "pp s'")
  from assms(3,4) p p' have eq: "dataset s2 = dataset s2'" "e = e'" by simp_all
  show ?thesis
    using assms(1,2) p p' eq
    by (auto simp: train_def write_if_verbose_def Let_def split: option.splits)
qed

lemma rotate_42_5: "rotate 42 [10, 11, 12, 13, 14 :: nat] = [12, 13, 14, 10, 11]"
  by (subst rotate_conv_mod) (simp add: rotate_def numeral_2_eq_2)

lemma rotate_42_3: "rotate 42 [20, 21, 22 :: nat] = [20, 21, 22]"
  by (subst rotate_conv_mod) simp

lemmas toy_defs =
  toy_lib_def toy_raw_def toy_mapped_def toy_tokenized_def fresh_trainer_def
  toy_token_model_def toy_text_model_def

lemma first_token_run:
  "token_train toy_lib toy_token_model demo_names fresh_trainer = (after_token_run, None)"
  by (simp add: token_train_def train_def token_preprocess_dataset_def tokenize_dataset_def
      write_if_verbose_def after_token_run_def toy_defs rotate_42_5 rotate_42_3)

lemma rotate_42_again: "rotate 42 [12, 13, 14, 10, 11 :: nat] = [14, 10, 11, 12, 13]"
  by (subst rotate_conv_mod) (simp add: rotate_def numeral_2_eq_2)

lemma first_text_run:
  "text_train toy_lib toy_text_model demo_names fresh_trainer = (after_text_run, None)"
  by (simp add: text_train_def train_def text_preprocess_dataset_def tokenize_dataset_def
      write_if_verbose_def after_text_run_def toy_defs rotate_42_5 rotate_42_3)

lemma token_preprocess_dataset_calls:
  "token_preprocess_dataset lib m names s = (s', e) \<Longrightarrow>
   \<exists>new. lib_calls s' = lib_calls s @ new \<and> (\<forall>d n. CallShuffle d n \<notin> set new)"
  unfolding token_preprocess_dataset_def by (rule tokenize_dataset_calls)

lemma text_preprocess_dataset_calls:
  "dataset s = Some d \<Longrightarrow> text_preprocess_dataset lib m names s = (s', e) \<Longrightarrow>
   \<exists>new. lib_calls s' = lib_calls s @ new \<and> (\<forall>d n. CallShuffle d n \<notin> set new)"
  unfolding text_preprocess_dataset_def by (simp add: tokenize_dataset_calls)

lemma train_shuffle_summary:
  fixes s :: "('ds, 'sp, 'hp) trainer"
  assumes d: "dataset s = Some d"
    and pp: "\<And>s s' e. dataset s = Some d \<Longrightarrow> pp s = (s', e) \<Longrightarrow>
              \<exists>new. lib_calls s' = lib_calls s @ new \<and> (\<forall>d n. CallShuffle d n \<notin> set new)"
    and same: "\<And>s s'. dataset s = Some d \<Longrightarrow> dataset s' = Some d \<Longrightarrow>
              dataset (fst (pp s)) = dataset (fst (pp s')) \<and> snd (pp s) = snd (pp s')"
  shows "(\<exists>new. lib_calls (fst (train lib dev pp s)) = lib_calls s @ new \<and>
            (\<forall>d' n. CallShuffle d' n \<in> set new \<longrightarrow> n = 42) \<and>
            (snd (train lib dev pp s) = None \<longrightarrow>
               (\<exists>d2. CallShuffle d2 42 \<in> set new \<and>
                  dataset (fst (train lib dev pp s)) = Some (ds_shuffle lib d2 42)))) \<and>
         (\<forall>s2. dataset s2 = Some d \<longrightarrow>
            dataset (fst (train lib dev pp s2)) = dataset (fst (train lib dev pp s)) \<and>
            snd (train lib dev pp s2) = snd (train lib dev pp s))"
proof (intro conjI allI impI)
  obtain s2 e where p: "pp s = (s2, e)" by (cases "pp s")
  from pp [OF d p] obtain new where
    n: "lib_calls s2 = lib_calls s @ new" "\<forall>d n. CallShuffle d n \<notin> set new" by blast
  show "\<exists>new. lib_calls (fst (train lib dev pp s)) = lib_calls s @ new \<and>
            (\<forall>d' n. CallShuffle d' n \<in> set new \<longrightarrow> n = 42) \<and>
            (snd (train lib dev pp s) = None \<longrightarrow>
               (\<exists>d2. CallShuffle d2 42 \<in> set new \<and>
                  dataset (fst (train lib dev pp s)) = Some (ds_shuffle lib d2 42)))"
    using d p n
    by (auto simp: train_def write_if_verbose_def Let_def split: option.splits)
next
  fix s2 :: "('ds, 'sp, 'hp) trainer"
  assume d2: "dataset s2 = Some d"
  from train_same_dataset [OF d2 d, of pp lib dev] same [OF d2 d]
  show "dataset (fst (train lib dev pp s2)) = dataset (fst (train lib dev pp s))" by simp
  from train_same_dataset [OF d2 d, of pp lib dev] same [OF d2 d]
  show "snd (train lib dev pp s2) = snd (train lib dev pp s)" by simp
qed

text \<open>
  C6.  In both trainers, when the train split of the trainer's dataset already has the
  feature \<open>input_ids\<close>, \<open>train\<close> runs as if preprocessing did nothing: the dataset
  is only shuffled, the collator is untouched, and the run makes no \<open>map\<close> call.  In
  the runs below a first call tokenizes the raw dataset and a second call on the
  resulting trainer adds a shuffle, a training run and a save, and no second \<open>map\<close>.
\<close>

theorem already_tokenized_skips_preprocessing:
  "(dataset s = Some d \<and> split lib d ''train'' = Some tr \<and>
    ''input_ids'' \<in> set (features lib tr) \<longrightarrow>
      token_train lib m names s = train lib (device m) (\<lambda>s. (s, None)) s \<and>
      dataset (fst (token_train lib m names s)) = Some (ds_shuffle lib d 42) \<and>
      data_collator (fst (token_train lib m names s)) = data_collator s \<and>
      (\<exists>rest. lib_calls (fst (token_train lib m names s)) =
                 lib_calls s @ CallShuffle d 42 # rest \<and>
               (\<forall>d'. CallMap d' \<notin> set rest))) \<and>
   (dataset ts = Some td \<and> split tlib td ''train'' = Some ttr \<and>
    ''input_ids'' \<in> set (features tlib ttr) \<longrightarrow>
      text_train tlib tm tnames ts = train tlib (device tm) (\<lambda>s. (s, None)) ts \<and>
      dataset (fst (text_train tlib tm tnames ts)) = Some (ds_shuffle tlib td 42) \<and>
      data_collator (fst (text_train tlib tm tnames ts)) = data_collator ts \<and>
      (\<exists>rest. lib_calls (fst (text_train tlib tm tnames ts)) =
                 lib_calls ts @ CallShuffle td 42 # rest \<and>
               (\<forall>d'. CallMap d' \<notin> set rest)))"
proof (intro conjI impI)
  assume a: "dataset s = Some d \<and> split lib d ''train'' = Some tr \<and>
    ''input_ids'' \<in> set (features lib tr)"
  then have a1: "dataset s = Some d" and a2: "split lib d ''train'' = Some tr"
    and a3: "''input_ids'' \<in> set (features lib tr)" by simp_all
  note k = train_skips [OF a1 a2 a3, of "device m" "token_preprocess_dataset lib m names"]
  show "token_train lib m names s = train lib (device m) (\<lambda>s. (s, None)) s"
    unfolding token_train_def by (rule k(1))
  show "dataset (fst (token_train lib m names s)) = Some (ds_shuffle lib d 42)"
    unfolding token_train_def by (rule k(2))
  show "data_collator (fst (token_train lib m names s)) = data_collator s"
    unfolding token_train_def by (rule k(3))
  show "\<exists>rest. lib_calls (fst (token_train lib m names s)) =
                 lib_calls s @ CallShuffle d 42 # rest \<and>
               (\<forall>d'. CallMap d' \<notin> set rest)"
    unfolding token_train_def by (rule k(4))
next
  assume a: "dataset ts = Some td \<and> split tlib td ''train'' = Some ttr \<and>
    ''input_ids'' \<in> set (features tlib ttr)"
  then have a1: "dataset ts = Some td" and a2: "split tlib td ''train'' = Some ttr"
    and a3: "''input_ids'' \<in> set (features tlib ttr)" by simp_all
  note k = train_skips [OF a1 a2 a3, of "device tm" "text_preprocess_dataset tlib tm tnames"]
  show "text_train tlib tm tnames ts = train tlib (device tm) (\<lambda>s. (s, None)) ts"
    unfolding text_train_def by (rule k(1))
  show "dataset (fst (text_train tlib tm tnames ts)) = Some (ds_shuffle tlib td 42)"
    unfolding text_train_def by (rule k(2))
  show "data_collator (fst (text_train tlib tm tnames ts)) = data_collator ts"
    unfolding text_train_def by (rule k(3))
  show "\<exists>rest. lib_calls (fst (text_train tlib tm tnames ts)) =
                 lib_calls ts @ CallShuffle td 42 # rest \<and>
               (\<forall>d'. CallMap d' \<notin> set rest)"
    unfolding text_train_def by (rule k(4))
qed

theorem already_tokenized_skips_preprocessing_witness:
  "token_train toy_lib toy_token_model demo_names fresh_trainer = (after_token_run, None) \<and>
   lib_calls (fst (token_train toy_lib toy_token_model demo_names after_token_run)) =
     lib_calls after_token_run @
     [CallShuffle toy_tokenized 42,
      CallTrain ([''tokens'', ''tags'', ''input_ids'', ''labels''], [14, 10, 11, 12, 13])
        ([''tokens'', ''tags'', ''input_ids'', ''labels''], [20, 21, 22])
        (Some DataCollatorForTokenClassification) ''out'' 3 True,
      CallSaveModel] \<and>
   text_train toy_lib toy_text_model demo_names fresh_trainer = (after_text_run, None) \<and>
   lib_calls (fst (text_train toy_lib toy_text_model demo_names after_text_run)) =
     lib_calls after_text_run @
     [CallShuffle toy_tokenized 42,
      CallTrain ([''tokens'', ''tags'', ''input_ids'', ''labels''], [14, 10, 11, 12, 13])
        ([''tokens'', ''tags'', ''input_ids'', ''labels''], [20, 21, 22])
        (Some DataCollatorWithPadding) ''out'' 3 False,
      CallSaveModel]"
  using already_tokenized_skips_preprocessing
    [of after_token_run toy_tokenized toy_lib
        "([''tokens'', ''tags'', ''input_ids'', ''labels''], [12, 13, 14, 10, 11])"
        toy_token_model demo_names
        after_text_run toy_tokenized toy_lib
        "([''tokens'', ''tags'', ''input_ids'', ''labels''], [12, 13, 14, 10, 11])"
        toy_text_model demo_names]
    first_token_run first_text_run
  by (simp add: train_def write_if_verbose_def after_token_run_def after_text_run_def
      toy_defs rotate_42_again rotate_42_3)

text \<open>
  C9.  In both trainers, every shuffle that a run of \<open>train\<close> over a given dataset
  makes has seed 42, and a run that completes leaves the dataset shuffled with seed 42.
  Two runs over the same dataset end with the same dataset and the same outcome,
  whatever else differs between the two trainer objects; the library's shuffle is a
  function of the dataset and the seed.
\<close>

theorem shuffle_seed_is_42:
  "(dataset (s :: ('ds, 'sp, 'hp) trainer) = Some d \<longrightarrow>
      (\<exists>new. lib_calls (fst (token_train lib m names s)) = lib_calls s @ new \<and>
         (\<forall>d' n. CallShuffle d' n \<in> set new \<longrightarrow> n = 42) \<and>
         (snd (token_train lib m names s) = None \<longrightarrow>
            (\<exists>d2. CallShuffle d2 42 \<in> set new \<and>
               dataset (fst (token_train lib m names s)) = Some (ds_shuffle lib d2 42)))) \<and>
      (\<forall>s2. dataset s2 = Some d \<longrightarrow>
         dataset (fst (token_train lib m names s2)) = dataset (fst (token_train lib m names s)) \<and>
         snd (token_train lib m names s2) = snd (token_train lib m names s))) \<and>
   (dataset (ts :: ('tds, 'tsp, 'thp) trainer) = Some td \<longrightarrow>
      (\<exists>new. lib_calls (fst (text_train tlib tm tnames ts)) = lib_calls ts @ new \<and>
         (\<forall>d' n. CallShuffle d' n \<in> set new \<longrightarrow> n = 42) \<and>
         (snd (text_train tlib tm tnames ts) = None \<longrightarrow>
            (\<exists>d2. CallShuffle d2 42 \<in> set new \<and>
               dataset (fst (text_train tlib tm tnames ts)) = Some (ds_shuffle tlib d2 42)))) \<and>
      (\<forall>s2. dataset s2 = Some td \<longrightarrow>
         dataset (fst (text_train tlib tm tnames s2)) =
           dataset (fst (text_train tlib tm tnames ts)) \<and>
         snd (text_train tlib tm tnames s2) = snd (text_train tlib tm tnames ts)))"
proof (intro conjI)
  show "dataset s = Some d \<longrightarrow>
      (\<exists>new. lib_calls (fst (token_train lib m names s)) = lib_calls s @ new \<and>
         (\<forall>d' n. CallShuffle d' n \<in> set new \<longrightarrow> n = 42) \<and>
         (snd (token_train lib m names s) = None \<longrightarrow>
            (\<exists>d2. CallShuffle d2 42 \<in> set new \<and>
               dataset (fst (token_train lib m names s)) = Some (ds_shuffle lib d2 42)))) \<and>
      (\<forall>s2. dataset s2 = Some d \<longrightarrow>
         dataset (fst (token_train lib m names s2)) = dataset (fst (token_train lib m names s)) \<and>
         snd (token_train lib m names s2) = snd (token_train lib m names s))"
  proof
    assume d: "dataset s = Some d"
    show "(\<exists>new. lib_calls (fst (token_train lib m names s)) = lib_calls s @ new \<and>
         (\<forall>d' n. CallShuffle d' n \<in> set new \<longrightarrow> n = 42) \<and>
         (snd (token_train lib m names s) = None \<longrightarrow>
            (\<exists>d2. CallShuffle d2 42 \<in> set new \<and>
               dataset (fst (token_train lib m names s)) = Some (ds_shuffle lib d2 42)))) \<and>
      (\<forall>s2. dataset s2 = Some d \<longrightarrow>
         dataset (fst (token_train lib m names s2)) = dataset (fst (token_train lib m names s)) \<and>
         snd (token_train lib m names s2) = snd (token_train lib m names s))"
      unfolding token_train_def
    proof (rule train_shuffle_summary [OF d])
      fix s s' :: "('ds, 'sp, 'hp) trainer" and e
      assume "token_preprocess_dataset lib m names s = (s', e)"
      then show "\<exists>new. lib_calls s' = lib_calls s @ new \<and> (\<forall>d n. CallShuffle d n \<notin> set new)"
        by (rule token_preprocess_dataset_calls)
    next
      fix s s' :: "('ds, 'sp, 'hp) trainer"
      assume "dataset s = Some d" "dataset s' = Some d"
      then show "dataset (fst (token_preprocess_dataset lib m names s)) =
                   dataset (fst (token_preprocess_dataset lib m names s')) \<and>
                 snd (token_preprocess_dataset lib m names s) =
                   snd (token_preprocess_dataset lib m names s')"
        by (simp add: token_preprocess_dataset_def tokenize_dataset_result)
    qed
  qed
  show "dataset ts = Some td \<longrightarrow>
      (\<exists>new. lib_calls (fst (text_train tlib tm tnames ts)) = lib_calls ts @ new \<and>
         (\<forall>d' n. CallShuffle d' n \<in> set new \<longrightarrow> n = 42) \<and>
         (snd (text_train tlib tm tnames ts) = None \<longrightarrow>
            (\<exists>d2. CallShuffle d2 42 \<in> set new \<and>
               dataset (fst (text_train tlib tm tnames ts)) = Some (ds_shuffle tlib d2 42)))) \<and>
      (\<forall>s2. dataset s2 = Some td \<longrightarrow>
         dataset (fst (text_train tlib tm tnames s2)) =
           dataset (fst (text_train tlib tm tnames ts)) \<and>
         snd (text_train tlib tm tnames s2) = snd (text_train tlib tm tnames ts))"
  proof
    assume d: "dataset ts = Some td"
    show "(\<exists>new. lib_calls (fst (text_train tlib tm tnames ts)) = lib_calls ts @ new \<and>
         (\<forall>d' n. CallShuffle d' n \<in> set new \<longrightarrow> n = 42) \<and>
         (snd (text_train tlib tm tnames ts) = None \<longrightarrow>
            (\<exists>d2. CallShuffle d2 42 \<in> set new \<and>
               dataset (fst (text_train tlib tm tnames ts)) = Some (ds_shuffle tlib d2 42)))) \<and>
      (\<forall>s2. dataset s2 = Some td \<longrightarrow>
         dataset (fst (text_train tlib tm tnames s2)) =
           dataset (fst (text_train tlib tm tnames ts)) \<and>
         snd (text_train tlib tm tnames s2) = snd (text_train tlib tm tnames ts))"
      unfolding text_train_def
    proof (rule train_shuffle_summary [OF d])
      fix s s' :: "('tds, 'tsp, 'thp) trainer" and e
      assume "dataset s = Some td" "text_preprocess_dataset tlib tm tnames s = (s', e)"
      then show "\<exists>new. lib_calls s' = lib_calls s @ new \<and> (\<forall>d n. CallShuffle d n \<notin> set new)"
        by (rule text_preprocess_dataset_calls)
    next
      fix s s' :: "('tds, 'tsp, 'thp) trainer"
      assume "dataset s = Some td" "dataset s' = Some td"
      then show "dataset (fst (text_preprocess_dataset tlib tm tnames s)) =
                   dataset (fst (text_preprocess_dataset tlib tm tnames s')) \<and>
                 snd (text_preprocess_dataset tlib tm tnames s) =
                   snd (text_preprocess_dataset tlib tm tnames s')"
        by (simp add: text_preprocess_dataset_def tokenize_dataset_result)
    qed
  qed
qed

theorem shuffle_seed_is_42_witness:
  "dataset loaded_trainer = Some toy_raw \<and> dataset other_trainer = Some toy_raw \<and>
   dataset (fst (token_train toy_lib toy_token_model demo_names loaded_trainer)) =
     Some toy_tokenized \<and>
   dataset (fst (token_train toy_lib toy_token_model demo_names other_trainer)) =
     Some toy_tokenized \<and>
   dataset (fst (text_train toy_lib toy_text_model demo_names loaded_trainer)) =
     Some toy_tokenized \<and>
   dataset (fst (text_train toy_lib toy_text_model demo_names other_trainer)) =
     Some toy_tokenized \<and>
   toy_tokenized = ds_shuffle toy_lib toy_mapped 42"
  using shuffle_seed_is_42
    [of loaded_trainer toy_raw toy_lib toy_token_model demo_names
        loaded_trainer toy_raw toy_lib toy_text_model demo_names]
  by (simp add: token_train_def text_train_def train_def token_preprocess_dataset_def
      text_preprocess_dataset_def tokenize_dataset_def write_if_verbose_def
      loaded_trainer_def other_trainer_def toy_defs rotate_42_5 rotate_42_3)

end
